theory Spec2Isabelle
  imports Main "HOL-Library.Multiset"
begin

section \<open>Runtime values\<close>

text \<open>
  A JavaScript string is modelled as a \<^typ>\<open>string\<close>; one \<^typ>\<open>char\<close> stands for one
  code unit below 256. \<open>String.prototype.trim\<close> strips the white space and line
  terminators of that range from both ends: TAB, LF, VT, FF, CR, SP and NBSP.
  The only falsy string is the empty one.
\<close>

definition is_ws :: "char \<Rightarrow> bool" where
  "is_ws c = ((of_char c :: nat) \<in> set [9, 10, 11, 12, 13, 32, 160])"

definition trim :: "string \<Rightarrow> string" where
  "trim s = rev (dropWhile is_ws (rev (dropWhile is_ws s)))"

text \<open>
  \<open>new Date().toISOString()\<close> is represented by the instant it denotes, in
  milliseconds since the epoch.
\<close>

type_synonym timestamp = int

text \<open>
  The backend client resolves every query to a pair \<open>{ data, error }\<close>; a failed request
  is a resolved pair whose \<open>error\<close> is set. The source reads the pair by destructuring.
\<close>

record pg_error =
  message :: string

record 'a response =
  data :: "'a option"
  error :: "pg_error option"

record select_query =
  q_table :: string
  q_columns :: string
  q_eq :: "(string \<times> bool) option"
  q_order :: string
  q_ascending :: bool

section \<open>The ticket creation dialog\<close>

record product =
  p_id :: string
  p_name :: string

text \<open>
  Modelled from the spec: the actor of \<open>useAuth()\<close>, whose declaration is in the
  authentication context. It has a username, an email that may be absent and a role
  that may be absent.
\<close>

record auth_user =
  username :: string
  email :: "string option"
  role :: "string option"

text \<open>The record built at \<open>const ticketData = {...}\<close>; fields carry the prefix \<open>td_\<close>.\<close>

record ticketData =
  td_id :: string
  td_user_id :: string
  td_title :: string
  td_description :: string
  td_category :: string
  td_product_id :: "string option"
  td_status :: string
  td_created_at :: timestamp
  td_updated_at :: timestamp

text \<open>The record built at \<open>const userData = {...}\<close>; fields carry the prefix \<open>ud_\<close>.\<close>

record userData =
  ud_id :: string
  ud_username :: string
  ud_email :: string
  ud_role :: string

record toast_msg =
  toast_title :: string
  toast_description :: string
  toast_variant :: "string option"

datatype payload = PTicket ticketData | PResult "string option"

text \<open>
  Everything a handler does besides updating its component's state, in program order.
\<close>

datatype effect =
    PreventDefault
  | Toast toast_msg
  | ConsoleLog string payload
  | ConsoleError string pg_error
  | Select select_query
  | InsertTicket ticketData
  | UpsertUser userData
  | OnOpenChange bool
  | OnTicketCreated

text \<open>The six \<open>useState\<close> cells of \<open>CreateTicketDialog\<close>.\<close>

record dialog =
  title :: string
  description :: string
  category :: string
  productId :: string
  products :: "product list"
  loading :: bool

definition dialog_init :: dialog where
  "dialog_init = \<lparr>title = [], description = [], category = [], productId = [],
     products = [], loading = False\<rparr>"

text \<open>
  What one run of \<open>handleSubmit\<close> reads from outside the component: the actor, the two
  results of \<open>crypto.randomUUID()\<close>, the two readings of the clock (one \<open>new Date()\<close> for
  \<open>created_at\<close>, a second one for \<open>updated_at\<close>), and the backend's answers to the insert
  and to the upsert.
\<close>

record submit_env =
  user :: "auth_user option"
  uuid1 :: string
  uuid2 :: string
  now1 :: timestamp
  now2 :: timestamp
  insert_ticket :: "ticketData \<Rightarrow> string response"
  upsert_user :: "userData \<Rightarrow> unit response"

definition products_query :: select_query where
  "products_query = \<lparr>q_table = ''products'', q_columns = ''id, name'',
     q_eq = Some (''available'', True), q_order = ''name'', q_ascending = True\<rparr>"

definition fetchProducts :: "product list response \<Rightarrow> dialog \<Rightarrow> dialog \<times> effect list" where
  "fetchProducts r s =
     (case error r of
        Some e \<Rightarrow> (s, [Select products_query, ConsoleError ''Error fetching products:'' e])
      | None \<Rightarrow>
          (s\<lparr>products := (case data r of Some ps \<Rightarrow> ps | None \<Rightarrow> [])\<rparr>,
           [Select products_query]))"

text \<open>The effect hook of the dialog: the products are fetched when \<open>open\<close> is true.\<close>

definition open_effect :: "bool \<Rightarrow> product list response \<Rightarrow> dialog \<Rightarrow> dialog \<times> effect list" where
  "open_effect opn r s = (if opn then fetchProducts r s else (s, []))"

definition validation_toast :: toast_msg where
  "validation_toast = \<lparr>toast_title = ''Error'',
     toast_description = ''Please fill in all required fields.'',
     toast_variant = Some ''destructive''\<rparr>"

definition login_toast :: toast_msg where
  "login_toast = \<lparr>toast_title = ''Error'',
     toast_description = ''You must be logged in to create a ticket.'',
     toast_variant = Some ''destructive''\<rparr>"

definition success_toast :: toast_msg where
  "success_toast = \<lparr>toast_title = ''Success'',
     toast_description = ''Your ticket has been created successfully.'',
     toast_variant = None\<rparr>"

definition failure_toast :: "pg_error \<Rightarrow> toast_msg" where
  "failure_toast e = \<lparr>toast_title = ''Error'',
     toast_description = ''Failed to create ticket: '' @
        (if message e \<noteq> [] then message e else ''Please try again.''),
     toast_variant = Some ''destructive''\<rparr>"

definition make_ticketData :: "submit_env \<Rightarrow> dialog \<Rightarrow> ticketData" where
  "make_ticketData env s = \<lparr>
     td_id = uuid1 env,
     td_user_id = uuid2 env,
     td_title = trim (title s),
     td_description = trim (description s),
     td_category = category s,
     td_product_id = (if productId s \<noteq> [] then Some (productId s) else None),
     td_status = ''open'',
     td_created_at = now1 env,
     td_updated_at = now2 env\<rparr>"

definition or_default :: "string option \<Rightarrow> string \<Rightarrow> string" where
  "or_default v d = (case v of Some x \<Rightarrow> (if x \<noteq> [] then x else d) | None \<Rightarrow> d)"

definition make_userData :: "ticketData \<Rightarrow> auth_user \<Rightarrow> userData" where
  "make_userData t u = \<lparr>
     ud_id = td_user_id t,
     ud_username = username u,
     ud_email = or_default (email u) (username u @ ''@local.app''),
     ud_role = or_default (role u) ''customer''\<rparr>"

definition handleSubmit :: "submit_env \<Rightarrow> dialog \<Rightarrow> dialog \<times> effect list" where
  "handleSubmit env s =
     (if trim (title s) = [] \<or> trim (description s) = [] \<or> category s = [] then
        (s, [PreventDefault, Toast validation_toast])
      else case user env of
        None \<Rightarrow> (s, [PreventDefault, Toast login_toast])
      | Some u \<Rightarrow>
          (let t = make_ticketData env s;
               r = insert_ticket env t
           in case error r of
                Some e \<Rightarrow>
                  (s\<lparr>loading := False\<rparr>,
                   [PreventDefault,
                    ConsoleLog ''Creating ticket with data:'' (PTicket t),
                    InsertTicket t,
                    ConsoleError ''Ticket creation error:'' e,
                    ConsoleError ''Error creating ticket:'' e,
                    Toast (failure_toast e)])
              | None \<Rightarrow>
                  (let ud = make_userData t u;
                       ignored = upsert_user env ud
                   in (s\<lparr>title := [], description := [], category := [], productId := [],
                          loading := False\<rparr>,
                       [PreventDefault,
                        ConsoleLog ''Creating ticket with data:'' (PTicket t),
                        InsertTicket t,
                        ConsoleLog ''Ticket created successfully:'' (PResult (data r)),
                        UpsertUser ud,
                        Toast success_toast,
                        OnOpenChange False,
                        OnTicketCreated]))))"

definition handleCategoryChange :: "string \<Rightarrow> dialog \<Rightarrow> dialog" where
  "handleCategoryChange v s =
     (if v = [] \<or> v = ''Account'' \<or> v = ''Orders'' \<or> v = ''Other''
      then s\<lparr>category := v\<rparr> else s)"

text \<open>The \<open>onValueChange\<close> handler of the product selector.\<close>

definition onProductValueChange :: "string \<Rightarrow> dialog \<Rightarrow> dialog" where
  "onProductValueChange v s = s\<lparr>productId := (if v = ''none'' then [] else v)\<rparr>"

definition setTitle :: "string \<Rightarrow> dialog \<Rightarrow> dialog" where
  "setTitle v s = s\<lparr>title := v\<rparr>"

definition setDescription :: "string \<Rightarrow> dialog \<Rightarrow> dialog" where
  "setDescription v s = s\<lparr>description := v\<rparr>"

text \<open>Observations on a trace of effects.\<close>

fun is_request :: "effect \<Rightarrow> bool" where
  "is_request (Select q) = True"
| "is_request (InsertTicket t) = True"
| "is_request (UpsertUser u) = True"
| "is_request e = False"

definition inserts :: "effect list \<Rightarrow> ticketData list" where
  "inserts es = concat (map (\<lambda>e. case e of InsertTicket t \<Rightarrow> [t] | _ \<Rightarrow> []) es)"

definition upserts :: "effect list \<Rightarrow> userData list" where
  "upserts es = concat (map (\<lambda>e. case e of UpsertUser u \<Rightarrow> [u] | _ \<Rightarrow> []) es)"

definition toasts :: "effect list \<Rightarrow> toast_msg list" where
  "toasts es = concat (map (\<lambda>e. case e of Toast t \<Rightarrow> [t] | _ \<Rightarrow> []) es)"

definition is_error_toast :: "toast_msg \<Rightarrow> bool" where
  "is_error_toast t = (toast_variant t = Some ''destructive'')"

fun is_callback :: "effect \<Rightarrow> bool" where
  "is_callback (OnOpenChange b) = True"
| "is_callback OnTicketCreated = True"
| "is_callback e = False"

fun is_console_error :: "effect \<Rightarrow> bool" where
  "is_console_error (ConsoleError l e) = True"
| "is_console_error e = False"

section \<open>The ticket list page\<close>

text \<open>
  A row of the ticket query with its two joins; fields carry the prefix \<open>r_\<close>.
  \<open>r_products\<close> is the name of the joined product, if any; \<open>r_ticket_replies\<close> is the
  list of \<open>{ count }\<close> aggregates, if present.
\<close>

record ticket_row =
  r_id :: string
  r_title :: string
  r_description :: string
  r_category :: string
  r_status :: string
  r_created_at :: timestamp
  r_products :: "string option"
  r_ticket_replies :: "nat list option"

text \<open>The four \<open>useState\<close> cells of \<open>Tickets\<close>; its \<open>loading\<close> cell is \<open>tickets_loading\<close>.\<close>

record page =
  tickets :: "ticket_row list"
  selectedTicket :: "ticket_row option"
  showCreateDialog :: bool
  tickets_loading :: bool

definition page_init :: page where
  "page_init = \<lparr>tickets = [], selectedTicket = None, showCreateDialog = False,
     tickets_loading = True\<rparr>"

definition tickets_query :: select_query where
  "tickets_query = \<lparr>q_table = ''tickets'',
     q_columns = ''*, products(name), ticket_replies(count)'',
     q_eq = None, q_order = ''created_at'', q_ascending = False\<rparr>"

definition load_failed_toast :: toast_msg where
  "load_failed_toast = \<lparr>toast_title = ''Error'',
     toast_description = ''Failed to load tickets.'',
     toast_variant = Some ''destructive''\<rparr>"

definition fetchTickets :: "ticket_row list response \<Rightarrow> page \<Rightarrow> page \<times> effect list" where
  "fetchTickets r p =
     (case error r of
        Some e \<Rightarrow>
          (p\<lparr>tickets_loading := False\<rparr>,
           [Select tickets_query, ConsoleError ''Error fetching tickets:'' e,
            Toast load_failed_toast])
      | None \<Rightarrow>
          (p\<lparr>tickets := (case data r of Some ts \<Rightarrow> ts | None \<Rightarrow> []),
             tickets_loading := False\<rparr>,
           [Select tickets_query]))"




text \<open>The effect hook of the page: the tickets are fetched when there is an actor.\<close>

definition user_effect ::
  "auth_user option \<Rightarrow> ticket_row list response \<Rightarrow> page \<Rightarrow> page \<times> effect list" where
  "user_effect u r p = (case u of Some x \<Rightarrow> fetchTickets r p | None \<Rightarrow> (p, []))"

text \<open>
  A property read from an object literal is looked up among the literal's own keys and
  then on \<open>Object.prototype\<close>, whose members (functions, and the prototype itself under
  \<open>__proto__\<close>) are all truthy.
\<close>

datatype js_value = JsString string | JsInherited string

definition object_prototype :: "string list" where
  "object_prototype = [''constructor'', ''__defineGetter__'', ''__defineSetter__'',
     ''hasOwnProperty'', ''__lookupGetter__'', ''__lookupSetter__'', ''isPrototypeOf'',
     ''propertyIsEnumerable'', ''toString'', ''valueOf'', ''__proto__'',
     ''toLocaleString'']"

definition get_property :: "(string \<times> string) list \<Rightarrow> string \<Rightarrow> js_value option" where
  "get_property obj k =
     (case map_of obj k of
        Some v \<Rightarrow> Some (JsString v)
      | None \<Rightarrow> (if k \<in> set object_prototype then Some (JsInherited k) else None))"

fun js_truthy :: "js_value \<Rightarrow> bool" where
  "js_truthy (JsString v) = (v \<noteq> [])"
| "js_truthy (JsInherited k) = True"

record badge =
  b_className :: "js_value option"
  b_variant :: "string option"
  b_children :: string

definition getStatusBadge :: "string \<Rightarrow> badge" where
  "getStatusBadge status =
     (if status = ''open'' then
        \<lparr>b_className = Some (JsString ''bg-green-500 text-white''), b_variant = None,
         b_children = ''Open''\<rparr>
      else if status = ''closed'' then
        \<lparr>b_className = None, b_variant = Some ''destructive'', b_children = ''Closed''\<rparr>
      else
        \<lparr>b_className = None, b_variant = Some ''outline'', b_children = status\<rparr>)"

definition colors :: "(string \<times> string) list" where
  "colors = [(''Account'', ''bg-blue-500 text-white''),
             (''Orders'', ''bg-purple-500 text-white''),
             (''Other'', ''bg-orange-500 text-white'')]"

definition gray :: js_value where
  "gray = JsString ''bg-gray-500 text-white''"

definition getCategoryBadge :: "string \<Rightarrow> badge" where
  "getCategoryBadge category' =
     \<lparr>b_className =
        Some (case get_property colors category' of
                Some v \<Rightarrow> (if js_truthy v then v else gray)
              | None \<Rightarrow> gray),
      b_variant = None,
      b_children = category'\<rparr>"

text \<open>One card of the grid; \<open>c_date\<close> is the instant that the card formats as a date.\<close>

record card =
  c_key :: string
  c_title :: string
  c_categoryBadge :: badge
  c_statusBadge :: badge
  c_description :: string
  c_product :: "string option"
  c_replies :: nat
  c_date :: timestamp

definition reply_count :: "nat list option \<Rightarrow> nat" where
  "reply_count rs = (case rs of None \<Rightarrow> 0 | Some [] \<Rightarrow> 0 | Some (c # cs) \<Rightarrow> c)"

definition render_card :: "ticket_row \<Rightarrow> card" where
  "render_card t = \<lparr>
     c_key = r_id t,
     c_title = r_title t,
     c_categoryBadge = getCategoryBadge (r_category t),
     c_statusBadge = getStatusBadge (r_status t),
     c_description = r_description t,
     c_product = r_products t,
     c_replies = reply_count (r_ticket_replies t),
     c_date = r_created_at t\<rparr>"

datatype body = LoadingDots | TicketGrid "card list" | EmptyState

text \<open>
  What the component returns: the detail surface of the selected ticket, or the list
  surface with its open counter, its closed counter, its body and the \<open>open\<close> flag
  handed to the creation dialog.
\<close>

datatype view = TicketDetailsView ticket_row | ListView nat nat body bool

definition render :: "page \<Rightarrow> view" where
  "render p =
     (case selectedTicket p of
        Some t \<Rightarrow> TicketDetailsView t
      | None \<Rightarrow>
          ListView
            (length (filter (\<lambda>t. r_status t = ''open'') (tickets p)))
            (length (filter (\<lambda>t. r_status t = ''closed'') (tickets p)))
            (if tickets_loading p then LoadingDots
             else if length (tickets p) > 0 then TicketGrid (map render_card (tickets p))
             else EmptyState)
            (showCreateDialog p))"

fun rendered_cards :: "view \<Rightarrow> card list" where
  "rendered_cards (ListView a b (TicketGrid cs) d) = cs"
| "rendered_cards v = []"



text \<open>The snapshot that a successful fetch stores: \<open>data || []\<close>.\<close>

definition snapshot :: "ticket_row list response \<Rightarrow> ticket_row list" where
  "snapshot r = (case data r of Some ts \<Rightarrow> ts | None \<Rightarrow> [])"


section \<open>Sample inputs\<close>

definition alice :: auth_user where
  "alice = \<lparr>username = ''alice'', email = None, role = None\<rparr>"

definition insert_ok :: "ticketData \<Rightarrow> string response" where
  "insert_ok t = \<lparr>data = Some (td_id t), error = None\<rparr>"

definition insert_rejected :: "ticketData \<Rightarrow> string response" where
  "insert_rejected t = \<lparr>data = None, error = Some \<lparr>message = ''permission denied''\<rparr>\<rparr>"

definition upsert_ok :: "userData \<Rightarrow> unit response" where
  "upsert_ok u = \<lparr>data = None, error = None\<rparr>"

definition upsert_rejected :: "userData \<Rightarrow> unit response" where
  "upsert_rejected u = \<lparr>data = None, error = Some \<lparr>message = ''duplicate email''\<rparr>\<rparr>"

definition env_ok :: submit_env where
  "env_ok = \<lparr>user = Some alice, uuid1 = ''id-1'', uuid2 = ''id-2'', now1 = 1000, now2 = 1000,
     insert_ticket = insert_ok, upsert_user = upsert_ok\<rparr>"

text \<open>The clock advances by one millisecond between its two readings.\<close>

definition env_tick :: submit_env where
  "env_tick = env_ok\<lparr>now2 := 1001\<rparr>"

definition env_insert_fails :: submit_env where
  "env_insert_fails = env_ok\<lparr>insert_ticket := insert_rejected\<rparr>"

definition env_upsert_fails :: submit_env where
  "env_upsert_fails = env_ok\<lparr>upsert_user := upsert_rejected\<rparr>"

definition late_delivery :: dialog where
  "late_delivery = \<lparr>title = ''Late delivery'', description = ''Order has not arrived'',
     category = ''Orders'', productId = [], products = [], loading = False\<rparr>"

definition row1 :: ticket_row where
  "row1 = \<lparr>r_id = ''t1'', r_title = ''Late delivery'',
     r_description = ''Order has not arrived'', r_category = ''Orders'', r_status = ''open'',
     r_created_at = 2000, r_products = None, r_ticket_replies = Some [2]\<rparr>"

definition row2 :: ticket_row where
  "row2 = \<lparr>r_id = ''t2'', r_title = ''Password'',
     r_description = ''Cannot log in'', r_category = ''Account'', r_status = ''closed'',
     r_created_at = 1000, r_products = Some ''Bot'', r_ticket_replies = None\<rparr>"

definition fetch_ok :: "ticket_row list \<Rightarrow> ticket_row list response" where
  "fetch_ok ts = \<lparr>data = Some ts, error = None\<rparr>"

definition fetch_failed :: "'a response" where
  "fetch_failed = \<lparr>data = None, error = Some \<lparr>message = ''network''\<rparr>\<rparr>"

section \<open>Properties of the creation dialog\<close>

lemma trim_late [simp]:
  "trim ''Late delivery'' = ''Late delivery''"
  "trim ''Order has not arrived'' = ''Order has not arrived''"
  by (simp_all add: trim_def is_ws_def)

lemma late_delivery_valid:
  "trim (title late_delivery) \<noteq> []" "trim (description late_delivery) \<noteq> []"
  "category late_delivery \<noteq> []"
  by (simp_all add: late_delivery_def)

lemma inserts_handleSubmit:
  assumes "trim (title s) \<noteq> []" and "trim (description s) \<noteq> []" and "category s \<noteq> []"
    and "user env = Some u"
  shows "inserts (snd (handleSubmit env s)) = [make_ticketData env s]"
  using assms by (simp add: handleSubmit_def inserts_def Let_def split: option.splits)

text \<open>
  C1, as stated, at a clock that advances between the two \<open>new Date()\<close> calls: the
  submission is valid and the insert succeeds, yet the inserted record has creation
  time 1000 and last-update time 1001, so the two are not one and the same submission
  time.
\<close>

theorem created_updated_differ:
  "user env_tick = Some alice
   \<and> trim (title late_delivery) \<noteq> [] \<and> trim (description late_delivery) \<noteq> []
   \<and> category late_delivery \<noteq> []
   \<and> error (insert_ticket env_tick (make_ticketData env_tick late_delivery)) = None
   \<and> map td_created_at (inserts (snd (handleSubmit env_tick late_delivery))) = [1000]
   \<and> map td_updated_at (inserts (snd (handleSubmit env_tick late_delivery))) = [1001]
   \<and> td_created_at (make_ticketData env_tick late_delivery)
       \<noteq> td_updated_at (make_ticketData env_tick late_delivery)"
  by (simp add: env_tick_def env_ok_def late_delivery_def handleSubmit_def insert_ok_def
      make_ticketData_def inserts_def Let_def)

text \<open>
  C1, amended. For a submission with an actor, a title and a description that are not
  empty after trimming, and a category, whose insert succeeds: exactly one ticket is
  inserted; its status is \<open>open\<close>, its creation time is the first reading of the clock
  and its last-update time the second reading (so both are the one submission time
  whenever the clock does not advance between the two readings); then the four form
  fields are empty, and the callbacks are \<open>onOpenChange(false)\<close> followed by
  \<open>onTicketCreated()\<close>, each once.
\<close>

theorem handleSubmit_success:
  assumes "trim (title s) \<noteq> []" and "trim (description s) \<noteq> []" and "category s \<noteq> []"
    and "user env = Some u"
    and "error (insert_ticket env (make_ticketData env s)) = None"
  shows "inserts (snd (handleSubmit env s)) = [make_ticketData env s]
       \<and> td_status (make_ticketData env s) = ''open''
       \<and> td_created_at (make_ticketData env s) = now1 env
       \<and> td_updated_at (make_ticketData env s) = now2 env
       \<and> fst (handleSubmit env s)
           = s\<lparr>title := [], description := [], category := [], productId := [],
               loading := False\<rparr>
       \<and> filter is_callback (snd (handleSubmit env s)) = [OnOpenChange False, OnTicketCreated]"
  using assms
  by (simp add: handleSubmit_def inserts_def make_ticketData_def Let_def)

theorem handleSubmit_success_witness:
  "user env_ok = Some alice
   \<and> error (insert_ticket env_ok (make_ticketData env_ok late_delivery)) = None
   \<and> inserts (snd (handleSubmit env_ok late_delivery)) = [make_ticketData env_ok late_delivery]
   \<and> td_status (make_ticketData env_ok late_delivery) = ''open''
   \<and> td_created_at (make_ticketData env_ok late_delivery) = 1000
   \<and> td_updated_at (make_ticketData env_ok late_delivery) = 1000
   \<and> title (fst (handleSubmit env_ok late_delivery)) = []
   \<and> description (fst (handleSubmit env_ok late_delivery)) = []
   \<and> category (fst (handleSubmit env_ok late_delivery)) = []
   \<and> productId (fst (handleSubmit env_ok late_delivery)) = []
   \<and> filter is_callback (snd (handleSubmit env_ok late_delivery))
       = [OnOpenChange False, OnTicketCreated]"
proof -
  have u: "user env_ok = Some alice"
    by (simp add: env_ok_def)
  have i: "error (insert_ticket env_ok (make_ticketData env_ok late_delivery)) = None"
    by (simp add: env_ok_def insert_ok_def)
  have n: "now1 env_ok = 1000" "now2 env_ok = 1000"
    by (simp_all add: env_ok_def)
  from handleSubmit_success [OF late_delivery_valid u i] u i n show ?thesis
    by simp
qed

text \<open>
  C2. A submission with an empty title, description or category (the code tests the
  trimmed title and description), or with no actor, issues no request at all, shows
  exactly one notification, an error one, and changes no state.
\<close>

theorem handleSubmit_rejects_without_request:
  assumes "trim (title s) = [] \<or> trim (description s) = [] \<or> category s = []
           \<or> user env = None"
  shows "filter is_request (snd (handleSubmit env s)) = []
       \<and> inserts (snd (handleSubmit env s)) = []
       \<and> upserts (snd (handleSubmit env s)) = []
       \<and> (\<exists>t. toasts (snd (handleSubmit env s)) = [t] \<and> is_error_toast t)
       \<and> fst (handleSubmit env s) = s"
  using assms
  by (auto simp: handleSubmit_def inserts_def upserts_def toasts_def is_error_toast_def
      validation_toast_def login_toast_def split: option.splits)

theorem handleSubmit_rejects_without_request_witness:
  "(trim (title dialog_init) = [] \<or> trim (description dialog_init) = []
      \<or> category dialog_init = [] \<or> user env_ok = None)
   \<and> filter is_request (snd (handleSubmit env_ok dialog_init)) = []
   \<and> inserts (snd (handleSubmit env_ok dialog_init)) = []
   \<and> upserts (snd (handleSubmit env_ok dialog_init)) = []
   \<and> (\<exists>t. toasts (snd (handleSubmit env_ok dialog_init)) = [t] \<and> is_error_toast t)
   \<and> fst (handleSubmit env_ok dialog_init) = dialog_init"
proof -
  have h: "trim (title dialog_init) = [] \<or> trim (description dialog_init) = []
      \<or> category dialog_init = [] \<or> user env_ok = None"
    by (simp add: dialog_init_def)
  from handleSubmit_rejects_without_request [OF h] h show ?thesis
    by simp
qed

text \<open>
  C3. When the insert of a valid submission fails, no upsert is issued; the one
  notification is an error one whose text ends with the message of the backend's error
  (with the fixed text \<open>Please try again.\<close> in place of an empty message); every form
  field keeps its value (only \<open>loading\<close> is cleared); and no callback is invoked, so the
  dialog is not closed.
\<close>

theorem handleSubmit_insert_failure:
  assumes "trim (title s) \<noteq> []" and "trim (description s) \<noteq> []" and "category s \<noteq> []"
    and "user env = Some u"
    and "error (insert_ticket env (make_ticketData env s)) = Some e"
  shows "upserts (snd (handleSubmit env s)) = []
       \<and> toasts (snd (handleSubmit env s)) =
           [\<lparr>toast_title = ''Error'',
             toast_description = ''Failed to create ticket: '' @
               (if message e \<noteq> [] then message e else ''Please try again.''),
             toast_variant = Some ''destructive''\<rparr>]
       \<and> fst (handleSubmit env s) = s\<lparr>loading := False\<rparr>
       \<and> filter is_callback (snd (handleSubmit env s)) = []"
  using assms
  by (simp add: handleSubmit_def upserts_def toasts_def failure_toast_def Let_def)

theorem handleSubmit_insert_failure_witness:
  "user env_insert_fails = Some alice
   \<and> error (insert_ticket env_insert_fails (make_ticketData env_insert_fails late_delivery))
       = Some \<lparr>message = ''permission denied''\<rparr>
   \<and> upserts (snd (handleSubmit env_insert_fails late_delivery)) = []
   \<and> toasts (snd (handleSubmit env_insert_fails late_delivery)) =
       [\<lparr>toast_title = ''Error'',
         toast_description = ''Failed to create ticket: permission denied'',
         toast_variant = Some ''destructive''\<rparr>]
   \<and> fst (handleSubmit env_insert_fails late_delivery) = late_delivery
   \<and> filter is_callback (snd (handleSubmit env_insert_fails late_delivery)) = []"
proof -
  have u: "user env_insert_fails = Some alice"
    by (simp add: env_insert_fails_def env_ok_def)
  have i: "error (insert_ticket env_insert_fails
             (make_ticketData env_insert_fails late_delivery))
           = Some \<lparr>message = ''permission denied''\<rparr>"
    by (simp add: env_insert_fails_def insert_rejected_def)
  have l: "late_delivery\<lparr>loading := False\<rparr> = late_delivery"
    by (simp add: late_delivery_def)
  from handleSubmit_insert_failure [OF late_delivery_valid u i] u i l show ?thesis
    by simp
qed

text \<open>
  C5. When the insert of a valid submission succeeds and the upsert fails, the upsert
  has been issued once and its outcome changes nothing: the one notification is the
  success one, nothing is logged as an error, the form is reset, the two callbacks are
  invoked, and state and effects are those of a run whose upsert succeeded.
\<close>

theorem handleSubmit_upsert_failure_ignored:
  assumes "trim (title s) \<noteq> []" and "trim (description s) \<noteq> []" and "category s \<noteq> []"
    and "user env = Some u"
    and "error (insert_ticket env (make_ticketData env s)) = None"
    and "error (upsert_user env (make_userData (make_ticketData env s) u)) = Some e"
  shows "upserts (snd (handleSubmit env s)) = [make_userData (make_ticketData env s) u]
       \<and> toasts (snd (handleSubmit env s)) = [success_toast]
       \<and> \<not> is_error_toast success_toast
       \<and> filter is_console_error (snd (handleSubmit env s)) = []
       \<and> fst (handleSubmit env s)
           = s\<lparr>title := [], description := [], category := [], productId := [],
               loading := False\<rparr>
       \<and> filter is_callback (snd (handleSubmit env s)) = [OnOpenChange False, OnTicketCreated]
       \<and> handleSubmit env s = handleSubmit (env\<lparr>upsert_user := upsert_ok\<rparr>) s"
  using assms
  by (simp add: handleSubmit_def upserts_def toasts_def success_toast_def is_error_toast_def
      make_ticketData_def Let_def)

theorem handleSubmit_upsert_failure_ignored_witness:
  "user env_upsert_fails = Some alice
   \<and> error (insert_ticket env_upsert_fails (make_ticketData env_upsert_fails late_delivery))
       = None
   \<and> error (upsert_user env_upsert_fails
        (make_userData (make_ticketData env_upsert_fails late_delivery) alice))
       = Some \<lparr>message = ''duplicate email''\<rparr>
   \<and> toasts (snd (handleSubmit env_upsert_fails late_delivery)) = [success_toast]
   \<and> \<not> is_error_toast success_toast
   \<and> filter is_console_error (snd (handleSubmit env_upsert_fails late_delivery)) = []
   \<and> title (fst (handleSubmit env_upsert_fails late_delivery)) = []
   \<and> filter is_callback (snd (handleSubmit env_upsert_fails late_delivery))
       = [OnOpenChange False, OnTicketCreated]
   \<and> handleSubmit env_upsert_fails late_delivery = handleSubmit env_ok late_delivery"
proof -
  have u: "user env_upsert_fails = Some alice"
    by (simp add: env_upsert_fails_def env_ok_def)
  have i: "error (insert_ticket env_upsert_fails
             (make_ticketData env_upsert_fails late_delivery)) = None"
    by (simp add: env_upsert_fails_def env_ok_def insert_ok_def)
  have f: "error (upsert_user env_upsert_fails
             (make_userData (make_ticketData env_upsert_fails late_delivery) alice))
           = Some \<lparr>message = ''duplicate email''\<rparr>"
    by (simp add: env_upsert_fails_def upsert_rejected_def)
  have e: "env_upsert_fails\<lparr>upsert_user := upsert_ok\<rparr> = env_ok"
    by (simp add: env_upsert_fails_def env_ok_def)
  from handleSubmit_upsert_failure_ignored [OF late_delivery_valid u i f] u i f e
  show ?thesis
    by auto
qed

text \<open>
  C6. After the \<open>none\<close> entry of the product selector has been chosen, or when no
  product is selected, the record handed to the insert of a valid submission has no
  product identifier (not the text \<open>none\<close>), the category of the form and the status
  \<open>open\<close>.
\<close>

theorem none_product_is_null:
  assumes "trim (title s) \<noteq> []" and "trim (description s) \<noteq> []" and "category s \<noteq> []"
    and "user env = Some u"
    and "s' = onProductValueChange ''none'' s \<or> (s' = s \<and> productId s = [])"
  shows "\<exists>t. inserts (snd (handleSubmit env s')) = [t]
           \<and> td_product_id t = None \<and> td_product_id t \<noteq> Some ''none''
           \<and> td_category t = category s \<and> td_status t = ''open''"
proof -
  have p: "productId s' = []" and f: "title s' = title s" "description s' = description s"
      "category s' = category s"
    using assms(5) by (auto simp: onProductValueChange_def)
  have "inserts (snd (handleSubmit env s')) = [make_ticketData env s']"
    using assms(1-4) f by (simp add: inserts_handleSubmit)
  moreover have "td_product_id (make_ticketData env s') = None"
    using p by (simp add: make_ticketData_def)
  moreover have "td_category (make_ticketData env s') = category s"
    using f by (simp add: make_ticketData_def)
  moreover have "td_status (make_ticketData env s') = ''open''"
    by (simp add: make_ticketData_def)
  ultimately show ?thesis by simp
qed

theorem none_product_is_null_witness:
  "title late_delivery = ''Late delivery''
   \<and> description late_delivery = ''Order has not arrived''
   \<and> category late_delivery = ''Orders'' \<and> productId late_delivery = []
   \<and> user env_ok = Some alice
   \<and> (\<exists>t. inserts (snd (handleSubmit env_ok late_delivery)) = [t]
           \<and> td_product_id t = None \<and> td_product_id t \<noteq> Some ''none''
           \<and> td_category t = ''Orders'' \<and> td_status t = ''open'')"
proof -
  have u: "user env_ok = Some alice"
    by (simp add: env_ok_def)
  have c: "title late_delivery = ''Late delivery''"
    "description late_delivery = ''Order has not arrived''"
    "category late_delivery = ''Orders''" "productId late_delivery = []"
    by (simp_all add: late_delivery_def)
  have h: "late_delivery = onProductValueChange ''none'' late_delivery
      \<or> (late_delivery = late_delivery \<and> productId late_delivery = [])"
    using c by simp
  from none_product_is_null [OF late_delivery_valid u h] u c show ?thesis
    by simp
qed

text \<open>
  C10. When the product fetch fails, the error is logged and nothing else happens: no
  notification, and no change of state, so the product list keeps its value. A
  submission made afterwards behaves as it would have before, and a valid one with no
  product selected hands the insert a record without product identifier.
\<close>

theorem fetchProducts_failure_silent:
  assumes "error r = Some e"
  shows "fst (fetchProducts r s) = s
       \<and> snd (fetchProducts r s)
           = [Select products_query, ConsoleError ''Error fetching products:'' e]
       \<and> toasts (snd (fetchProducts r s)) = []
       \<and> handleSubmit env (fst (fetchProducts r s)) = handleSubmit env s
       \<and> (trim (title s) \<noteq> [] \<and> trim (description s) \<noteq> [] \<and> category s \<noteq> []
            \<and> user env \<noteq> None \<and> productId s = []
          \<longrightarrow> inserts (snd (handleSubmit env (fst (fetchProducts r s))))
                = [make_ticketData env s]
              \<and> td_product_id (make_ticketData env s) = None)"
  using assms
  by (auto simp: fetchProducts_def toasts_def inserts_handleSubmit make_ticketData_def)

theorem fetchProducts_failure_silent_witness:
  "error (fetch_failed :: product list response) = Some \<lparr>message = ''network''\<rparr>
   \<and> user env_ok \<noteq> None \<and> productId late_delivery = []
   \<and> products (fst (fetchProducts fetch_failed late_delivery)) = products late_delivery
   \<and> toasts (snd (fetchProducts fetch_failed late_delivery)) = []
   \<and> inserts (snd (handleSubmit env_ok (fst (fetchProducts fetch_failed late_delivery))))
       = [make_ticketData env_ok late_delivery]
   \<and> td_product_id (make_ticketData env_ok late_delivery) = None"
proof -
  have f: "error (fetch_failed :: product list response) = Some \<lparr>message = ''network''\<rparr>"
    by (simp add: fetch_failed_def)
  have u: "user env_ok \<noteq> None" "productId late_delivery = []"
    by (simp_all add: env_ok_def late_delivery_def)
  from fetchProducts_failure_silent [OF f, of late_delivery env_ok] f u late_delivery_valid
  show ?thesis
    by auto
qed

section \<open>Properties of the ticket list page\<close>


text \<open>
  C4, as stated, on a re-fetch: after a fetch that returned one ticket, a failed fetch
  leaves that ticket's card on the page, so the rendered list is not empty.
\<close>

theorem refetch_failure_keeps_cards:
  "error (fetch_failed :: ticket_row list response) \<noteq> None
   \<and> error (fetch_ok [row1]) = None
   \<and> rendered_cards (render (fst (fetchTickets fetch_failed
        (fst (fetchTickets (fetch_ok [row1]) page_init))))) = [render_card row1]"
  by (simp add: fetch_failed_def fetch_ok_def fetchTickets_def page_init_def render_def)

text \<open>
  C4, amended. A failed ticket fetch shows one notification, an error one, and leaves
  the ticket list as it was before the fetch; the page renders as it would have
  without the fetch once loading is over. So the rendered list is empty when the list
  was empty before, as it is on the initial fetch, and on the list surface it is the
  cards of the tickets held before, in their order; after a previous successful fetch
  these are the cards of the whole snapshot fetched then.
\<close>

theorem fetchTickets_failure:
  assumes "error r = Some e"
  shows "toasts (snd (fetchTickets r p)) = [load_failed_toast]
       \<and> is_error_toast load_failed_toast
       \<and> tickets (fst (fetchTickets r p)) = tickets p
       \<and> (tickets p = [] \<longrightarrow> rendered_cards (render (fst (fetchTickets r p))) = [])
       \<and> rendered_cards (render (fst (fetchTickets r page_init))) = []
       \<and> render (fst (fetchTickets r p)) = render (p\<lparr>tickets_loading := False\<rparr>)
       \<and> (selectedTicket p = None \<longrightarrow>
            rendered_cards (render (fst (fetchTickets r p))) = map render_card (tickets p))
       \<and> (error r0 = None \<and> selectedTicket p0 = None \<longrightarrow>
            rendered_cards (render (fst (fetchTickets r (fst (fetchTickets r0 p0)))))
              = map render_card (snapshot r0))"
proof -
  have f: "fst (fetchTickets r p) = p\<lparr>tickets_loading := False\<rparr>" for p
    using assms by (simp add: fetchTickets_def)
  have t: "toasts (snd (fetchTickets r p)) = [load_failed_toast]"
    using assms by (simp add: fetchTickets_def toasts_def)
  have g: "rendered_cards (render (p\<lparr>tickets_loading := False\<rparr>)) = map render_card (tickets p)"
    if "selectedTicket p = None" for p
    using that by (cases "tickets p") (simp_all add: render_def)
  have k: "rendered_cards (render (fst (fetchTickets r0 p0)\<lparr>tickets_loading := False\<rparr>))
           = map render_card (snapshot r0)"
    if "error r0 = None" "selectedTicket p0 = None"
    using that g [of "fst (fetchTickets r0 p0)"] by (simp add: fetchTickets_def snapshot_def)
  have c1: "is_error_toast load_failed_toast"
    by (simp add: is_error_toast_def load_failed_toast_def)
  have c2: "tickets (fst (fetchTickets r p)) = tickets p"
    by (simp add: f)
  have c3: "tickets p = [] \<longrightarrow> rendered_cards (render (fst (fetchTickets r p))) = []"
    by (simp add: f render_def split: option.splits)
  have c4: "rendered_cards (render (fst (fetchTickets r page_init))) = []"
    by (simp add: f render_def page_init_def)
  have c5: "render (fst (fetchTickets r p)) = render (p\<lparr>tickets_loading := False\<rparr>)"
    by (simp add: f)
  have c6: "selectedTicket p = None \<longrightarrow>
      rendered_cards (render (fst (fetchTickets r p))) = map render_card (tickets p)"
    using g [of p] by (simp add: f)
  have c7: "error r0 = None \<and> selectedTicket p0 = None \<longrightarrow>
      rendered_cards (render (fst (fetchTickets r (fst (fetchTickets r0 p0)))))
        = map render_card (snapshot r0)"
    using k by (simp add: f)
  from t c1 c2 c3 c4 c5 c6 c7 show ?thesis
    by blast
qed

theorem fetchTickets_failure_witness:
  "error (fetch_failed :: ticket_row list response) = Some \<lparr>message = ''network''\<rparr>
   \<and> error (fetch_ok [row1, row2]) = None \<and> selectedTicket page_init = None
   \<and> toasts (snd (fetchTickets fetch_failed page_init)) = [load_failed_toast]
   \<and> is_error_toast load_failed_toast
   \<and> rendered_cards (render (fst (fetchTickets fetch_failed page_init))) = []
   \<and> rendered_cards (render (fst (fetchTickets fetch_failed
        (fst (fetchTickets (fetch_ok [row1, row2]) page_init)))))
       = [render_card row1, render_card row2]"
proof -
  have f: "error (fetch_failed :: ticket_row list response) = Some \<lparr>message = ''network''\<rparr>"
    by (simp add: fetch_failed_def)
  have h: "error (fetch_ok [row1, row2]) = None" "selectedTicket page_init = None"
    by (simp_all add: fetch_ok_def page_init_def)
  have s: "snapshot (fetch_ok [row1, row2]) = [row1, row2]"
    by (simp add: snapshot_def fetch_ok_def)
  note t = fetchTickets_failure [OF f, of page_init "fetch_ok [row1, row2]" page_init]
  from t have a: "toasts (snd (fetchTickets fetch_failed page_init)) = [load_failed_toast]"
    and b: "is_error_toast load_failed_toast"
    and c: "rendered_cards (render (fst (fetchTickets fetch_failed page_init))) = []"
    and d: "error (fetch_ok [row1, row2]) = None \<and> selectedTicket page_init = None \<longrightarrow>
        rendered_cards (render (fst (fetchTickets fetch_failed
          (fst (fetchTickets (fetch_ok [row1, row2]) page_init)))))
         = map render_card (snapshot (fetch_ok [row1, row2]))"
    by blast+
  from d h s have d': "rendered_cards (render (fst (fetchTickets fetch_failed
        (fst (fetchTickets (fetch_ok [row1, row2]) page_init)))))
       = [render_card row1, render_card row2]"
    by simp
  show ?thesis
    using f h a b c d' by blast
qed










text \<open>
  Badges. A status other than \<open>open\<close> and \<open>closed\<close> gets the outline badge showing the
  status as it is. A category that is neither a key of \<open>colors\<close> nor the name of a
  member of \<open>Object.prototype\<close> gets the gray badge showing the category as it is.
\<close>

lemma getStatusBadge_fallback:
  assumes "status \<noteq> ''open''" and "status \<noteq> ''closed''"
  shows "getStatusBadge status
         = \<lparr>b_className = None, b_variant = Some ''outline'', b_children = status\<rparr>"
  using assms by (simp add: getStatusBadge_def)

lemma getCategoryBadge_fallback:
  assumes "c \<notin> set (map fst colors)" and "c \<notin> set object_prototype"
  shows "getCategoryBadge c = \<lparr>b_className = Some gray, b_variant = None, b_children = c\<rparr>"
proof -
  have "map_of colors c = None"
    using assms(1) by (simp add: map_of_eq_None_iff)
  then show ?thesis
    using assms(2) by (simp add: getCategoryBadge_def get_property_def)
qed

text \<open>
  C9, at the category \<open>constructor\<close>: it is none of the three known categories, yet
  \<open>colors[category]\<close> finds the member of that name on \<open>Object.prototype\<close>, which is
  truthy, and the badge's class is that member instead of the gray fallback.
\<close>

theorem getCategoryBadge_inherited_key:
  "''constructor'' \<notin> set [''Account'', ''Orders'', ''Other'']
   \<and> b_className (getCategoryBadge ''constructor'') = Some (JsInherited ''constructor'')
   \<and> b_className (getCategoryBadge ''constructor'') \<noteq> Some gray
   \<and> b_children (getCategoryBadge ''constructor'') = ''constructor''"
  by (simp add: getCategoryBadge_def get_property_def colors_def object_prototype_def gray_def)

end
